theory Spec2Isabelle
  imports
    Complex_Main
    "HOL-Library.AList"
    "HOL-Library.Sublist"
    "HOL-Library.Multiset"
    "HOL-Library.Char_ord"
begin

section \<open>Conventions of the embedding\<close>

text \<open>
  The program is \<^verbatim>\<open>src/app/main.py\<close>. Its module-level caches and histories become
  fields of explicit state records that every model function takes and returns.
  What the program reads from the operating system (files under \<^verbatim>\<open>/sys\<close>, \<^verbatim>\<open>psutil\<close>
  results, the clock) is an argument of the model function; a read that raises in the
  source is the value \<open>None\<close>.

  Python \<^verbatim>\<open>int\<close> is \<open>int\<close>. Python \<^verbatim>\<open>float\<close> is idealised as \<open>rat\<close>: comparisons,
  sums and quotients are exact, so binary rounding error and float overflow are outside
  the model. A \<^verbatim>\<open>dict\<close> whose items are enumerated is an association list kept in
  insertion order (\<open>AList.update\<close> overwrites in place or appends, as Python does);
  a \<^verbatim>\<open>dict\<close> that is only looked up is a map.
\<close>

subsection \<open>Python built-ins used by the program\<close>

text \<open>\<^verbatim>\<open>round(x, n)\<close>: to \<open>n\<close> decimals, a tie going to the even neighbour.\<close>

definition py_round :: "nat \<Rightarrow> rat \<Rightarrow> rat" where
  "py_round n x =
     (let s = x * 10 ^ n;
          f = \<lfloor>s\<rfloor>;
          r = s - of_int f
      in (if r < 1 / 2 then of_int f
          else if 1 / 2 < r then of_int f + 1
          else if even f then of_int f
          else of_int f + 1) / 10 ^ n)"

text \<open>
  \<^verbatim>\<open>collections.deque(maxlen=n).append(x)\<close>: the item goes to the right end, and when
  the deque then holds more than \<open>n\<close> items the leftmost one is dropped.
\<close>

definition deque_append :: "nat \<Rightarrow> 'a \<Rightarrow> 'a list \<Rightarrow> 'a list" where
  "deque_append maxlen x q =
     (let q' = q @ [x] in if maxlen < length q' then tl q' else q')"

section \<open>History buffers\<close>

text \<open>
  \<^verbatim>\<open>_cpu_temp_history = deque(maxlen=60)\<close> and \<^verbatim>\<open>_memory_history = deque(maxlen=60)\<close>.
\<close>

definition history_maxlen :: nat where
  "history_maxlen = 60"

definition history_append :: "'a \<Rightarrow> 'a list \<Rightarrow> 'a list" where
  "history_append = deque_append history_maxlen"

text \<open>A run of pushes, oldest first.\<close>

definition history_pushes :: "'a list \<Rightarrow> 'a list \<Rightarrow> 'a list" where
  "history_pushes xs h = fold history_append xs h"

section \<open>RaplReader\<close>

text \<open>
  A domain is the dictionary \<^verbatim>\<open>_init_domains\<close> builds. Its \<^verbatim>\<open>energy_file\<close> entry is
  always \<^verbatim>\<open>os.path.join(path, "energy_uj")\<close>, so it is a function of the path here.
\<close>

record rapl_domain =
  path :: string
  name :: string
  max_range :: int

text \<open>\<^verbatim>\<open>os.path.join(a, b)\<close> for a relative \<open>b\<close>.\<close>

definition path_join :: "string \<Rightarrow> string \<Rightarrow> string" where
  "path_join a b = a @ ''/'' @ b"

definition energy_file :: "rapl_domain \<Rightarrow> string" where
  "energy_file d = path_join (path d) ''energy_uj''"

subsection \<open>_init_domains\<close>

text \<open>
  What the discovery reads: the listing of \<^verbatim>\<open>/sys/class/powercap\<close> (\<open>None\<close> when the
  directory is absent or listing it raises), the stripped content of a \<^verbatim>\<open>name\<close> file
  (\<open>None\<close> when the file is absent or reading it raises; the entry is skipped either
  way) and the content of a \<^verbatim>\<open>max_energy_range_uj\<close> file. An absent range file leaves
  \<^verbatim>\<open>max_range\<close> at 0; one that cannot be read or parsed raises, and the entry is skipped.
\<close>

datatype range_read = No_file | Unreadable | Range int

definition base_path :: string where
  "base_path = ''/sys/class/powercap''"

text \<open>\<^verbatim>\<open>path.split(":")[-1]\<close>\<close>

definition last_field :: "string \<Rightarrow> string" where
  "last_field s = rev (takeWhile (\<lambda>c. c \<noteq> CHR '':'') (rev s))"

definition init_domain ::
  "(string \<Rightarrow> string option) \<Rightarrow> (string \<Rightarrow> range_read) \<Rightarrow> string \<Rightarrow> rapl_domain option" where
  "init_domain name_of range_of p =
     (case name_of (path_join p ''name'') of
        None \<Rightarrow> None
      | Some n \<Rightarrow>
          (let n' = (if sublist ''package'' n then ''Package-'' @ last_field p else n)
           in case range_of (path_join p ''max_energy_range_uj'') of
                No_file \<Rightarrow> Some \<lparr>path = p, name = n', max_range = 0\<rparr>
              | Unreadable \<Rightarrow> None
              | Range m \<Rightarrow> Some \<lparr>path = p, name = n', max_range = m\<rparr>))"

definition init_domains ::
  "string list option \<Rightarrow> (string \<Rightarrow> string option) \<Rightarrow> (string \<Rightarrow> range_read) \<Rightarrow>
   rapl_domain list" where
  "init_domains listing name_of range_of =
     (case listing of
        None \<Rightarrow> []
      | Some ds \<Rightarrow>
          List.map_filter (init_domain name_of range_of)
            (map (path_join base_path)
               (filter (\<lambda>d. sublist ''intel-rapl'' d \<and> CHR '':'' \<in> set d) ds)))"

type_synonym readings = "string \<rightharpoonup> (rat \<times> int)"

record rapl_reader =
  last_readings :: readings
  domains :: "rapl_domain list"
  cleanup_counter :: nat

text \<open>
  The periodic cleanup at the head of \<^verbatim>\<open>get_power_stats\<close>: the counter is bumped, and
  once it exceeds 300 it is reset and every reading older than 60 seconds is deleted.
\<close>

definition prune_readings :: "rat \<Rightarrow> readings \<Rightarrow> readings" where
  "prune_readings now lr =
     (\<lambda>p. case lr p of
            None \<Rightarrow> None
          | Some (timestamp, e) \<Rightarrow> if 60 < now - timestamp then None else Some (timestamp, e))"

definition cleanup :: "rat \<Rightarrow> rapl_reader \<Rightarrow> rapl_reader" where
  "cleanup now r =
     (let c = cleanup_counter r + 1
      in if 300 < c
         then r\<lparr>cleanup_counter := 0, last_readings := prune_readings now (last_readings r)\<rparr>
         else r\<lparr>cleanup_counter := c\<rparr>)"

text \<open>
  The energy delta of one domain, with the single wrap-around correction
  \<^verbatim>\<open>if de < 0: de += domain["max_range"]\<close>.
\<close>

definition corrected_de :: "rapl_domain \<Rightarrow> int \<Rightarrow> int \<Rightarrow> int" where
  "corrected_de d energy_uj last_energy =
     (let de = energy_uj - last_energy in if de < 0 then de + max_range d else de)"

text \<open>
  The body of \<^verbatim>\<open>for domain in self.domains\<close>. The argument \<open>rd\<close> reads and parses an
  energy file; \<open>None\<close> stands for a missing file and for every exception of the read,
  which the source answers with \<^verbatim>\<open>continue\<close>.
\<close>

definition sample_domain ::
  "rat \<Rightarrow> (string \<Rightarrow> int option) \<Rightarrow> rapl_domain \<Rightarrow>
   (string \<times> rat) list \<times> readings \<Rightarrow> (string \<times> rat) list \<times> readings" where
  "sample_domain now rd d acc =
     (case acc of (stats, lr) \<Rightarrow>
        (case rd (energy_file d) of
           None \<Rightarrow> (stats, lr)
         | Some energy_uj \<Rightarrow>
             (let stats' =
                (case lr (path d) of
                   None \<Rightarrow> stats
                 | Some (last_time, last_energy) \<Rightarrow>
                     (let dt = now - last_time;
                          de = corrected_de d energy_uj last_energy
                      in if 0 < dt \<and> 0 \<le> de
                         then AList.update (name d)
                                (py_round 2 ((of_int de / 1000000) / dt)) stats
                         else stats))
              in (stats', lr(path d \<mapsto> (now, energy_uj))))))"

definition get_power_stats ::
  "rat \<Rightarrow> (string \<Rightarrow> int option) \<Rightarrow> rapl_reader \<Rightarrow> (string \<times> rat) list \<times> rapl_reader" where
  "get_power_stats now rd r =
     (let r1 = cleanup now r;
          res = fold (sample_domain now rd) (domains r1) ([], last_readings r1)
      in (fst res, r1\<lparr>last_readings := snd res\<rparr>))"

subsection \<open>Concrete readers\<close>

text \<open>
  A reader whose only domain is package 0, read for the 301st time since the last
  cleanup, 100 seconds after its stored reading was taken.
\<close>

definition pkg0 :: rapl_domain where
  "pkg0 = \<lparr>path = ''/sys/class/powercap/intel-rapl:0'', name = ''Package-0'',
           max_range = 262143328850\<rparr>"

definition idle_reader :: rapl_reader where
  "idle_reader =
     \<lparr>last_readings = [''/sys/class/powercap/intel-rapl:0'' \<mapsto> (0, 100)],
      domains = [pkg0], cleanup_counter = 300\<rparr>"

definition idle_read :: "string \<Rightarrow> int option" where
  "idle_read f =
     (if f = ''/sys/class/powercap/intel-rapl:0/energy_uj'' then Some 5000100 else None)"

text \<open>
  A reader with two domains that \<^verbatim>\<open>_init_domains\<close> both names \<^verbatim>\<open>Package-0\<close> (the name
  file of each holds \<^verbatim>\<open>package-0\<close> and each path ends in \<^verbatim>\<open>:0\<close>); the second has no
  \<^verbatim>\<open>max_energy_range_uj\<close>, hence \<^verbatim>\<open>max_range\<close> 0, and its counter has gone backwards.
\<close>




definition twin_names :: "string \<Rightarrow> string option" where
  "twin_names f =
     (if f = ''/sys/class/powercap/intel-rapl:0/name'' then Some ''package-0''
      else if f = ''/sys/class/powercap/intel-rapl-mmio:0/name'' then Some ''package-0''
      else None)"

definition twin_ranges :: "string \<Rightarrow> range_read" where
  "twin_ranges f =
     (if f = ''/sys/class/powercap/intel-rapl:0/max_energy_range_uj''
      then Range 262143328850 else No_file)"

definition pkg0_mmio :: rapl_domain where
  "pkg0_mmio = \<lparr>path = ''/sys/class/powercap/intel-rapl-mmio:0'', name = ''Package-0'',
                max_range = 0\<rparr>"

definition twin_reader :: rapl_reader where
  "twin_reader =
     \<lparr>last_readings = [''/sys/class/powercap/intel-rapl:0'' \<mapsto> (0, 1000000),
                       ''/sys/class/powercap/intel-rapl-mmio:0'' \<mapsto> (0, 500)],
      domains = [pkg0, pkg0_mmio], cleanup_counter = 0\<rparr>"

definition twin_read :: "string \<Rightarrow> int option" where
  "twin_read f =
     (if f = ''/sys/class/powercap/intel-rapl:0/energy_uj'' then Some 6000000
      else if f = ''/sys/class/powercap/intel-rapl-mmio:0/energy_uj'' then Some 100
      else None)"


section \<open>Rendering numbers\<close>

text \<open>\<^verbatim>\<open>str(n)\<close> for an integer, and the digits it is made of.\<close>

definition digit_char :: "nat \<Rightarrow> char" where
  "digit_char n = char_of (48 + n)"

fun digits :: "nat \<Rightarrow> string" where
  "digits n = (if n < 10 then [digit_char n] else digits (n div 10) @ [digit_char (n mod 10)])"

declare digits.simps [simp del]

definition py_str_int :: "int \<Rightarrow> string" where
  "py_str_int i = (if i < 0 then ''-'' @ digits (nat (- i)) else digits (nat i))"

text \<open>
  \<^verbatim>\<open>f"{x:.2f}"\<close>: the value rounded to hundredths (ties to even), written with its
  integer digits, a point and exactly two decimals.
\<close>

definition format_2f :: "rat \<Rightarrow> string" where
  "format_2f x =
     (let h = \<lfloor>py_round 2 x * 100\<rfloor>;
          a = nat \<bar>h\<bar>
      in (if h < 0 then ''-'' else '''') @ digits (a div 100) @ ''.'' @
         [digit_char ((a mod 100) div 10), digit_char (a mod 10)])"

section \<open>get_size\<close>

text \<open>
  \<^verbatim>\<open>for unit in ["", "K", "M", "G", "T", "P"]\<close>: the first unit at which the running
  value is below 1024 formats it; otherwise the value is divided by 1024 and the next
  unit is tried. When the units run out the function falls off its end, and Python
  returns \<^verbatim>\<open>None\<close>.
\<close>

fun get_size_units :: "rat \<Rightarrow> string \<Rightarrow> string list \<Rightarrow> string option" where
  "get_size_units bytes sfx [] = None"
| "get_size_units bytes sfx (unit # units) =
     (if bytes < 1024 then Some (format_2f bytes @ '' '' @ unit @ ''i'' @ sfx)
      else get_size_units (bytes / 1024) sfx units)"

definition size_units :: "string list" where
  "size_units = ['''', ''K'', ''M'', ''G'', ''T'', ''P'']"

definition get_size :: "rat \<Rightarrow> string \<Rightarrow> string option" where
  "get_size bytes sfx = get_size_units bytes sfx size_units"

section \<open>Process table\<close>

text \<open>
  A process is the \<^verbatim>\<open>p_info\<close> dictionary. The keys the functions below look at are
  fields; the remaining keys (user name, thread count, uptime, ...) are carried along
  untouched by the source and are left out. \<^verbatim>\<open>build_process_tree\<close> reads the parent
  with \<^verbatim>\<open>p.get('ppid', 0)\<close>, so that key may be absent.
\<close>

record process =
  pid :: int
  ppid :: "int option"
  proc_name :: string
  memory_percent :: rat

text \<open>
  \<^verbatim>\<open>list.sort(key=..., reverse=True)\<close>: CPython reverses the list, sorts it stably in
  ascending key order and reverses the result, so equal keys keep their input order.
\<close>

definition py_sort_reverse :: "('a \<Rightarrow> 'k::linorder) \<Rightarrow> 'a list \<Rightarrow> 'a list" where
  "py_sort_reverse key xs = rev (sort_key key (rev xs))"

subsection \<open>build_process_tree\<close>

text \<open>
  The source links dictionaries by reference: a record sits in the input list, possibly
  in its parent's \<^verbatim>\<open>children\<close> list and possibly in the list of roots, and is the same
  object everywhere. The model names a record by its position in the input list; the
  \<^verbatim>\<open>children\<close> entry of record \<open>j\<close> is the \<open>j\<close>-th list of positions.
\<close>

definition ppid_of :: "process \<Rightarrow> int" where
  "ppid_of p = (case ppid p of None \<Rightarrow> 0 | Some q \<Rightarrow> q)"

text \<open>\<^verbatim>\<open>{p['pid']: p for p in processes}\<close>: a later record wins its pid.\<close>

fun pid_map_from :: "nat \<Rightarrow> process list \<Rightarrow> (int \<rightharpoonup> nat) \<Rightarrow> (int \<rightharpoonup> nat)" where
  "pid_map_from i [] m = m"
| "pid_map_from i (p # ps) m = pid_map_from (Suc i) ps (m(pid p \<mapsto> i))"

definition pid_map :: "process list \<Rightarrow> (int \<rightharpoonup> nat)" where
  "pid_map processes = pid_map_from 0 processes Map.empty"

record process_tree =
  children :: "nat list list"
  root_processes :: "nat list"

definition link_process :: "process list \<Rightarrow> (int \<rightharpoonup> nat) \<Rightarrow> nat \<Rightarrow> process_tree \<Rightarrow> process_tree" where
  "link_process processes m i t =
     (case m (ppid_of (processes ! i)) of
        Some j \<Rightarrow> t\<lparr>children := (children t)[j := children t ! j @ [i]]\<rparr>
      | None \<Rightarrow> t\<lparr>root_processes := root_processes t @ [i]\<rparr>)"

definition build_process_tree :: "process list \<Rightarrow> process_tree" where
  "build_process_tree processes =
     fold (link_process processes (pid_map processes)) [0..<length processes]
       \<lparr>children = replicate (length processes) [], root_processes = []\<rparr>"

text \<open>The list of processes of the specification's example.\<close>

definition example_processes :: "process list" where
  "example_processes =
     [\<lparr>pid = 1, ppid = Some 0, proc_name = ''init'', memory_percent = 1\<rparr>,
      \<lparr>pid = 2, ppid = Some 1, proc_name = ''sshd'', memory_percent = 2\<rparr>,
      \<lparr>pid = 3, ppid = Some 99, proc_name = ''orphan'', memory_percent = 2\<rparr>]"

section \<open>Network connections\<close>

text \<open>
  A connection is \<^verbatim>\<open>psutil\<close>'s \<^verbatim>\<open>sconn\<close> tuple. An address is \<open>(ip, port)\<close>; \<^verbatim>\<open>psutil\<close>
  gives the empty tuple for a missing address, which is \<open>None\<close> here.
\<close>

record conn =
  conn_type :: int
  laddr :: "(string \<times> int) option"
  raddr :: "(string \<times> int) option"
  status :: string
  conn_pid :: "int option"

subsection \<open>get_listening_ports\<close>

record port_info =
  tcp :: "string option"
  udp :: "string option"
  other :: "string option"

record port_entry =
  port :: int
  protocol :: string

definition str_pid :: "int option \<Rightarrow> string" where
  "str_pid p = (case p of None \<Rightarrow> ''None'' | Some i \<Rightarrow> py_str_int i)"

text \<open>
  The body of the loop over the connections. \<open>names\<close> is \<^verbatim>\<open>psutil.Process(pid).name()\<close>,
  \<open>None\<close> when it raises. Nothing else in the body can raise, so its \<^verbatim>\<open>except: continue\<close>
  has no branch here.
\<close>

definition add_listener ::
  "(int option \<Rightarrow> string option) \<Rightarrow> conn \<Rightarrow> (int \<times> port_info) list \<Rightarrow> (int \<times> port_info) list" where
  "add_listener names c listening_ports =
     (case laddr c of
        None \<Rightarrow> listening_ports
      | Some a \<Rightarrow>
          if status c = ''LISTEN'' then
            (let port = snd a;
                 proc_name = (case names (conn_pid c) of
                                Some n \<Rightarrow> n
                              | None \<Rightarrow> ''PID '' @ str_pid (conn_pid c));
                 info = (case map_of listening_ports port of
                           None \<Rightarrow> \<lparr>tcp = None, udp = None, other = None\<rparr>
                         | Some i \<Rightarrow> i);
                 info' = (if conn_type c = 1 then info\<lparr>tcp := Some proc_name\<rparr>
                          else if conn_type c = 2 then info\<lparr>udp := Some proc_name\<rparr>
                          else info\<lparr>other := Some proc_name\<rparr>)
             in AList.update port info' listening_ports)
          else listening_ports)"

text \<open>Python truth of an optional string: present and not empty.\<close>

definition truthy :: "string option \<Rightarrow> bool" where
  "truthy s = (case s of None \<Rightarrow> False | Some v \<Rightarrow> v \<noteq> [])"

definition proto_str :: "port_info \<Rightarrow> string" where
  "proto_str port_info =
     (let s1 = (if truthy (tcp port_info) then ''TCP:'' @ the (tcp port_info) else '''');
          s2 = (if truthy (udp port_info)
                then (if s1 \<noteq> [] then s1 @ '', '' else s1) @ ''UDP:'' @ the (udp port_info)
                else s1)
      in s2)"

text \<open>
  \<open>conns\<close> is the result of \<^verbatim>\<open>psutil.net_connections()\<close>, \<open>None\<close> when the call raises;
  the outer \<^verbatim>\<open>except\<close> then returns the empty list. Every port looked up in the second
  loop is a key of the dictionary, so that lookup cannot fail.
\<close>

definition get_listening_ports ::
  "(int option \<Rightarrow> string option) \<Rightarrow> conn list option \<Rightarrow> port_entry list" where
  "get_listening_ports names conns =
     (case conns of
        None \<Rightarrow> []
      | Some cs \<Rightarrow>
          (let listening_ports = fold (add_listener names) cs []
           in map (\<lambda>p. \<lparr>port = p, protocol = proto_str (the (map_of listening_ports p))\<rparr>)
                (take 20 (sort (map fst listening_ports)))))"

text \<open>A small connection table: two listeners on port 22, one on port 80, one client.\<close>

definition example_conns :: "conn list" where
  "example_conns =
     [\<lparr>conn_type = 1, laddr = Some (''0.0.0.0'', 80), raddr = None, status = ''LISTEN'',
       conn_pid = Some 7\<rparr>,
      \<lparr>conn_type = 1, laddr = Some (''0.0.0.0'', 22), raddr = None, status = ''LISTEN'',
       conn_pid = Some 5\<rparr>,
      \<lparr>conn_type = 1, laddr = Some (''10.0.0.1'', 22), raddr = Some (''10.0.0.9'', 4000),
       status = ''ESTABLISHED'', conn_pid = Some 6\<rparr>,
      \<lparr>conn_type = 1, laddr = Some (''::'', 22), raddr = None, status = ''LISTEN'',
       conn_pid = Some 5\<rparr>]"

definition example_names :: "int option \<Rightarrow> string option" where
  "example_names p = (if p = Some 5 then Some ''sshd'' else None)"

text \<open>The ports some connection of the table listens on.\<close>

definition listening_port_set :: "conn list \<Rightarrow> int set" where
  "listening_port_set cs = {snd a | c a. c \<in> set cs \<and> status c = ''LISTEN'' \<and> laddr c = Some a}"

section \<open>Module state\<close>

text \<open>
  The module-level variables of \<^verbatim>\<open>main.py\<close>: five caches with the time of their last
  refresh, the two histories and the RAPL reader.
\<close>

record partition =
  device :: string
  mountpoint :: string
  fstype :: string

record ssh_session =
  user :: string
  ip :: string
  started :: string

text \<open>
  The entries of \<^verbatim>\<open>ssh_stats\<close> that steps 2 to 6 of \<^verbatim>\<open>get_ssh_stats\<close> fill in. Each step
  sits in its own \<^verbatim>\<open>try\<close> and leaves its default on failure, so none of them can make
  the refresh fail; their outcome is an argument of the model.
\<close>

record ssh_extras =
  ssh_process_memory :: rat
  oom_risk_processes :: "(int \<times> string \<times> rat) list"
  hostkey_fingerprint :: string
  failed_logins :: nat
  auth_publickey :: nat
  auth_password :: nat
  history_size :: nat

text \<open>
  The dictionary under \<^verbatim>\<open>_ssh_stats_cache\<close>, its key \<^verbatim>\<open>status\<close> written \<open>ssh_status\<close>.
  The module's initial value has the first three keys only (\<open>extras = None\<close>).
\<close>

record ssh_stats =
  ssh_status :: string
  connections :: nat
  sessions :: "ssh_session list"
  extras :: "ssh_extras option"

text \<open>History samples; the key \<^verbatim>\<open>time\<close> of each is written with a prefix.\<close>

record temp_sample =
  temp_time :: rat
  avg :: rat
  cores :: "rat list"

record mem_sample =
  mem_time :: rat
  mem_percent :: rat
  used :: int
  available :: int

record app_state =
  disk_partitions_cache :: "partition list"
  last_partitions_time :: rat
  process_cache :: "process list"
  last_process_time :: rat
  connection_states_cache :: "(string \<times> nat) list"
  last_connection_states_time :: rat
  ssh_stats_cache :: ssh_stats
  last_ssh_time :: rat
  gpu_info_cache :: "string option"
  last_gpu_info_time :: rat
  cpu_temp_history :: "temp_sample list"
  memory_history :: "mem_sample list"
  rapl :: rapl_reader

text \<open>
  Each function below reads the clock once (\<open>now\<close>); the source calls \<^verbatim>\<open>time.time()\<close>
  again when it stamps a refreshed cache, a moment later.
\<close>

text \<open>The state when the module has been loaded, for a reader with the given domains.\<close>

definition initial_state :: "rapl_domain list \<Rightarrow> app_state" where
  "initial_state ds =
     \<lparr>disk_partitions_cache = [], last_partitions_time = 0,
      process_cache = [], last_process_time = 0,
      connection_states_cache = [], last_connection_states_time = 0,
      ssh_stats_cache = \<lparr>ssh_status = ''Stopped'', connections = 0, sessions = [],
                          extras = None\<rparr>,
      last_ssh_time = 0,
      gpu_info_cache = None, last_gpu_info_time = 0,
      cpu_temp_history = [], memory_history = [],
      rapl = \<lparr>last_readings = Map.empty, domains = ds, cleanup_counter = 0\<rparr>\<rparr>"

section \<open>Cached collectors\<close>

subsection \<open>get_gpu_info\<close>

definition intel_gpu_names :: "(string \<times> string) list" where
  "intel_gpu_names =
     [(''0x46d4'', ''Intel Alder Lake-N [UHD Graphics]''),
      (''0x46d1'', ''Intel Alder Lake-N [UHD Graphics]''),
      (''0x46d0'', ''Intel Alder Lake-N [UHD Graphics]'')]"

definition intel_gpu_name :: "string \<Rightarrow> string" where
  "intel_gpu_name dev =
     (case map_of intel_gpu_names dev of
        Some n \<Rightarrow> n
      | None \<Rightarrow> ''Intel Graphics ['' @ dev @ '']'')"

text \<open>
  \<open>cards\<close> is what the scan of \<^verbatim>\<open>/sys/class/drm/card?\<close> reads: the (vendor, device)
  pairs of the cards that have both files, in scan order; \<open>None\<close> when the scan raises
  before it has seen an Intel card. Without an Intel card, and on an exception, the
  source stores \<^verbatim>\<open>"Unknown GPU"\<close>.
\<close>

definition get_gpu_info ::
  "rat \<Rightarrow> (string \<times> string) list option \<Rightarrow> app_state \<Rightarrow> string option \<times> app_state" where
  "get_gpu_info now cards st =
     (if 60 < now - last_gpu_info_time st \<or> gpu_info_cache st = None then
        (let found = (case cards of
                        None \<Rightarrow> None
                      | Some cs \<Rightarrow> find (\<lambda>gpu_card. fst gpu_card = ''0x8086'') cs);
             gpu = (case found of
                      Some gpu_card \<Rightarrow> intel_gpu_name (snd gpu_card) @ '' [Integrated]''
                    | None \<Rightarrow> ''Unknown GPU'')
         in (Some gpu, st\<lparr>gpu_info_cache := Some gpu, last_gpu_info_time := now\<rparr>))
      else (gpu_info_cache st, st))"

subsection \<open>get_top_processes\<close>

text \<open>
  \<open>gathered\<close> is the list \<^verbatim>\<open>processes\<close> as the enumeration leaves it: one enriched
  \<^verbatim>\<open>p_info\<close> per process, in enumeration order; when \<^verbatim>\<open>psutil.process_iter\<close> raises, the
  records appended so far (none, if it raises at once).
\<close>

definition get_top_processes ::
  "rat \<Rightarrow> process list \<Rightarrow> app_state \<Rightarrow> process list \<times> app_state" where
  "get_top_processes now gathered st =
     (if 5 < now - last_process_time st then
        (let processes = py_sort_reverse memory_percent gathered
         in (processes, st\<lparr>process_cache := processes, last_process_time := now\<rparr>))
      else (process_cache st, st))"

subsection \<open>get_connection_states\<close>

definition zero_states :: "(string \<times> nat) list" where
  "zero_states =
     [(''ESTABLISHED'', 0), (''SYN_SENT'', 0), (''SYN_RECV'', 0), (''FIN_WAIT1'', 0),
      (''FIN_WAIT2'', 0), (''TIME_WAIT'', 0), (''CLOSE'', 0), (''CLOSE_WAIT'', 0),
      (''LAST_ACK'', 0), (''LISTEN'', 0), (''CLOSING'', 0)]"

definition count_state :: "conn \<Rightarrow> (string \<times> nat) list \<Rightarrow> (string \<times> nat) list" where
  "count_state c states =
     (case map_of states (status c) of
        Some n \<Rightarrow> AList.update (status c) (n + 1) states
      | None \<Rightarrow> states)"

text \<open>
  \<open>conns\<close> is \<^verbatim>\<open>psutil.net_connections(kind='tcp')\<close>, \<open>None\<close> when it raises; the source
  then passes over the exception and stores the histogram as it stands, all zero.
\<close>

definition get_connection_states ::
  "rat \<Rightarrow> conn list option \<Rightarrow> app_state \<Rightarrow> (string \<times> nat) list \<times> app_state" where
  "get_connection_states now conns st =
     (if 10 < now - last_connection_states_time st then
        (let states = (case conns of
                         None \<Rightarrow> zero_states
                       | Some cs \<Rightarrow> fold count_state cs zero_states)
         in (states, st\<lparr>connection_states_cache := states,
                         last_connection_states_time := now\<rparr>))
      else (connection_states_cache st, st))"

subsection \<open>get_ssh_stats\<close>

definition fresh_ssh_stats :: ssh_stats where
  "fresh_ssh_stats = \<lparr>ssh_status = ''Stopped'', connections = 0, sessions = [], extras = None\<rparr>"

text \<open>
  Step 1, the loop over the TCP connections. \<^verbatim>\<open>conn.laddr.port\<close> raises on a connection
  without a local address, which leaves the outer \<^verbatim>\<open>try\<close>: the scan is \<open>None\<close>. \<open>who\<close>
  gives the user name and start time that the guarded process lookup settles on.
\<close>

fun ssh_scan :: "(conn \<Rightarrow> string \<times> string) \<Rightarrow> conn list \<Rightarrow> ssh_stats \<Rightarrow> ssh_stats option" where
  "ssh_scan who [] s = Some s"
| "ssh_scan who (c # cs) s =
     (case laddr c of
        None \<Rightarrow> None
      | Some a \<Rightarrow>
          if snd a = 22 then
            (if status c = ''LISTEN'' then ssh_scan who cs (s\<lparr>ssh_status := ''Running''\<rparr>)
             else if status c = ''ESTABLISHED'' then
               ssh_scan who cs
                 (s\<lparr>connections := connections s + 1,
                    sessions := sessions s @
                      [\<lparr>user = fst (who c),
                        ip = (case raddr c of Some r \<Rightarrow> fst r | None \<Rightarrow> ''Unknown''),
                        started = snd (who c)\<rparr>]\<rparr>)
             else ssh_scan who cs s)
          else ssh_scan who cs s)"

text \<open>
  \<open>conns\<close> is \<^verbatim>\<open>psutil.net_connections(kind='tcp')\<close>, \<open>None\<close> when it raises. The
  assignment to \<^verbatim>\<open>_ssh_stats_cache\<close> is the last statement inside the outer \<^verbatim>\<open>try\<close>, so
  a failure skips it; the time stamp is set either way.
\<close>

definition get_ssh_stats ::
  "rat \<Rightarrow> conn list option \<Rightarrow> (conn \<Rightarrow> string \<times> string) \<Rightarrow> ssh_extras \<Rightarrow> app_state \<Rightarrow>
   ssh_stats \<times> app_state" where
  "get_ssh_stats now conns who ex st =
     (if 10 < now - last_ssh_time st then
        (let computed = (case conns of
                           None \<Rightarrow> None
                         | Some cs \<Rightarrow> ssh_scan who cs fresh_ssh_stats);
             st' = (case computed of
                      None \<Rightarrow> st
                    | Some s \<Rightarrow> st\<lparr>ssh_stats_cache := s\<lparr>extras := Some ex\<rparr>\<rparr>)
         in (ssh_stats_cache st', st'\<lparr>last_ssh_time := now\<rparr>))
      else (ssh_stats_cache st, st))"

section \<open>collect_stats\<close>

text \<open>
  What one call reads from the operating system. The sections of the snapshot that no
  state depends on (CPU load, fans, disks, interfaces, swap, boot time) are left out,
  and the \<^verbatim>\<open>psutil\<close> calls the source makes outside any \<^verbatim>\<open>try\<close> are taken to return.
\<close>

record temp_entry =
  label :: string
  current :: rat

record battery =
  percent :: rat
  power_plugged :: bool
  secsleft :: int

text \<open>The fields of \<^verbatim>\<open>psutil.virtual_memory()\<close> that enter the memory history.\<close>

record virtual_memory =
  vm_percent :: rat
  vm_used :: int
  vm_available :: int

record power_supply =
  power_now :: "int option"
  voltage_now :: "int option"
  current_now :: "int option"

record os_reads =
  clock :: rat
  temps :: "(string \<times> temp_entry list) list option"
  sensors_battery :: "battery option"
  energy_reads :: "string \<Rightarrow> int option"
  supplies :: "power_supply list option"
  svmem :: virtual_memory
  disk_partitions :: "partition list"
  tcp_conns :: "conn list option"
  all_conns :: "conn list option"
  proc_names :: "int option \<Rightarrow> string option"
  ssh_conns :: "conn list option"
  ssh_who :: "conn \<Rightarrow> string \<times> string"
  ssh_steps :: ssh_extras
  process_iter :: "process list"

subsection \<open>Core temperatures\<close>

text \<open>\<^verbatim>\<open>str.lower()\<close>, on ASCII letters.\<close>

definition lower_char :: "char \<Rightarrow> char" where
  "lower_char c =
     (if CHR ''A'' \<le> c \<and> c \<le> CHR ''Z'' then char_of (of_char c + (32 :: nat)) else c)"

definition py_lower :: "string \<Rightarrow> string" where
  "py_lower s = map lower_char s"

text \<open>
  An entry counts as a CPU core temperature when the sensor name contains
  \<^verbatim>\<open>coretemp\<close> or \<^verbatim>\<open>cpu\<close> and its label contains \<^verbatim>\<open>core\<close>, case ignored.
\<close>

definition is_core_temp :: "string \<Rightarrow> temp_entry \<Rightarrow> bool" where
  "is_core_temp sensor e =
     ((sublist ''coretemp'' (py_lower sensor) \<or> sublist ''cpu'' (py_lower sensor)) \<and>
      sublist ''core'' (py_lower (label e)))"

text \<open>
  \<open>core_temps\<close> after the sensor loop; empty when \<^verbatim>\<open>psutil.sensors_temperatures()\<close>
  raises or returns nothing.
\<close>

definition core_temps :: "(string \<times> temp_entry list) list option \<Rightarrow> rat list" where
  "core_temps ts =
     (case ts of
        None \<Rightarrow> []
      | Some sensors \<Rightarrow>
          concat (map (\<lambda>(sensor, entries). map current (filter (is_core_temp sensor) entries))
                    sensors))"

definition temp_sample_of :: "rat \<Rightarrow> rat list \<Rightarrow> temp_sample" where
  "temp_sample_of now cts =
     \<lparr>temp_time = now,
      avg = py_round 1 (sum_list cts / of_nat (length cts)),
      cores = cts\<rparr>"

definition mem_sample_of :: "rat \<Rightarrow> virtual_memory \<Rightarrow> mem_sample" where
  "mem_sample_of now vm =
     \<lparr>mem_time = now, mem_percent = vm_percent vm, used = vm_used vm,
      available = vm_available vm\<rparr>"

subsection \<open>Power\<close>

record power_status =
  battery_info :: "battery option"
  rapl_watts :: "(string \<times> rat) list option"
  consumption_watts :: "rat option"

text \<open>\<^verbatim>\<open>sum(v for k, v in rapl_stats.items() if "Package" in k)\<close>\<close>

definition package_total :: "(string \<times> rat) list \<Rightarrow> rat" where
  "package_total rapl_stats =
     sum_list (map snd (filter (\<lambda>kv. sublist ''Package'' (fst kv)) rapl_stats))"

text \<open>
  The fallback over \<^verbatim>\<open>/sys/class/power_supply\<close>. A supply that has a readable
  \<^verbatim>\<open>power_now\<close> adds it in watts; otherwise one that has both \<^verbatim>\<open>voltage_now\<close> and
  \<^verbatim>\<open>current_now\<close> adds their product. \<open>None\<close> for the list: the directory is absent or
  listing it raises.
\<close>

definition supply_watts :: "power_supply \<Rightarrow> rat" where
  "supply_watts s =
     (case power_now s of
        Some p_now \<Rightarrow> of_int p_now / 1000000
      | None \<Rightarrow>
          (case voltage_now s of
             None \<Rightarrow> 0
           | Some v_now \<Rightarrow>
               (case current_now s of
                  None \<Rightarrow> 0
                | Some c_now \<Rightarrow> of_int (v_now * c_now) / 1000000000000)))"

definition sysfs_power :: "power_supply list option \<Rightarrow> rat" where
  "sysfs_power sups =
     (case sups of
        None \<Rightarrow> 0
      | Some ss \<Rightarrow> fold (\<lambda>s power_watts. power_watts + supply_watts s) ss 0)"

text \<open>
  The power section: the battery keys, then the RAPL block, then the fallback block
  under its guard \<^verbatim>\<open>if "consumption_watts" not in power_status\<close>. The flag of the result
  tells whether the fallback block ran.
\<close>

definition rapl_block :: "(string \<times> rat) list \<Rightarrow> power_status \<Rightarrow> power_status" where
  "rapl_block rapl_stats ps =
     (if rapl_stats \<noteq> [] then
        (let ps' = ps\<lparr>rapl_watts := Some rapl_stats\<rparr>;
             total_watts = package_total rapl_stats
         in if 0 < total_watts then ps'\<lparr>consumption_watts := Some total_watts\<rparr> else ps')
      else ps)"

definition fallback_block :: "power_supply list option \<Rightarrow> power_status \<Rightarrow> power_status \<times> bool" where
  "fallback_block sups ps =
     (if consumption_watts ps = None then
        (let power_watts = sysfs_power sups
         in (if 0 < power_watts then ps\<lparr>consumption_watts := Some (py_round 4 power_watts)\<rparr>
             else ps, True))
      else (ps, False))"

definition power_section ::
  "battery option \<Rightarrow> (string \<times> rat) list \<Rightarrow> power_supply list option \<Rightarrow> power_status \<times> bool" where
  "power_section bat rapl_stats sups =
     fallback_block sups
       (rapl_block rapl_stats
          \<lparr>battery_info = bat, rapl_watts = None, consumption_watts = None\<rparr>)"

subsection \<open>The snapshot\<close>

text \<open>
  The sections of the returned dictionary that the module state feeds; its key
  \<^verbatim>\<open>power\<close> is the field \<open>power'\<close>.
\<close>

record snapshot =
  temp_history :: "temp_sample list"
  power' :: power_status
  history :: "mem_sample list"
  connection_states :: "(string \<times> nat) list"
  listening_ports :: "port_entry list"
  ssh :: ssh_stats
  processes :: "process list"

definition refresh_partitions :: "rat \<Rightarrow> partition list \<Rightarrow> app_state \<Rightarrow> app_state" where
  "refresh_partitions now parts st =
     (if 60 < now - last_partitions_time st \<or> disk_partitions_cache st = []
      then st\<lparr>disk_partitions_cache := parts, last_partitions_time := now\<rparr>
      else st)"

definition collect_stats :: "os_reads \<Rightarrow> app_state \<Rightarrow> snapshot \<times> app_state" where
  "collect_stats os st0 =
     (let now = clock os;
          cts = core_temps (temps os);
          st1 = (if cts \<noteq> []
                 then st0\<lparr>cpu_temp_history :=
                           history_append (temp_sample_of now cts) (cpu_temp_history st0)\<rparr>
                 else st0);
          sampled = get_power_stats now (energy_reads os) (rapl st1);
          st2 = st1\<lparr>rapl := snd sampled\<rparr>;
          power_status = fst (power_section (sensors_battery os) (fst sampled) (supplies os));
          st3 = st2\<lparr>memory_history :=
                      history_append (mem_sample_of now (svmem os)) (memory_history st2)\<rparr>;
          st4 = refresh_partitions now (disk_partitions os) st3;
          states = get_connection_states now (tcp_conns os) st4;
          ports = get_listening_ports (proc_names os) (all_conns os);
          sshs = get_ssh_stats now (ssh_conns os) (ssh_who os) (ssh_steps os) (snd states);
          procs = get_top_processes now (process_iter os) (snd sshs)
      in (\<lparr>temp_history = cpu_temp_history (snd procs),
           power' = power_status,
           history = memory_history (snd procs),
           connection_states = fst states,
           listening_ports = ports,
           ssh = fst sshs,
           processes = fst procs\<rparr>,
          snd procs))"

subsection \<open>Concrete ticks\<close>

text \<open>
  A host without temperature sensors, battery, RAPL or power supplies, on which every
  connection and process enumeration fails.
\<close>

definition no_ssh_steps :: ssh_extras where
  "no_ssh_steps =
     \<lparr>ssh_process_memory = 0, oom_risk_processes = [], hostkey_fingerprint = ''-'',
      failed_logins = 0, auth_publickey = 0, auth_password = 0, history_size = 0\<rparr>"

definition bare_os :: os_reads where
  "bare_os =
     \<lparr>clock = 2000, temps = None, sensors_battery = None, energy_reads = (\<lambda>f. None),
      supplies = None,
      svmem = \<lparr>vm_percent = 50, vm_used = 4000000000, vm_available = 4000000000\<rparr>,
      disk_partitions = [], tcp_conns = None, all_conns = None,
      proc_names = (\<lambda>p. None), ssh_conns = None,
      ssh_who = (\<lambda>c. (''Unknown'', ''-'')), ssh_steps = no_ssh_steps,
      process_iter = []\<rparr>"

text \<open>
  A laptop: one core temperature, package 0 read through RAPL (5 J in 50 s) and a
  battery that reports 7 W.
\<close>

definition laptop_os :: os_reads where
  "laptop_os =
     bare_os\<lparr>clock := 50,
             temps := Some [(''coretemp'', [\<lparr>label = ''Core 0'', current = 45\<rparr>,
                                            \<lparr>label = ''Package id 0'', current = 47\<rparr>])],
             energy_reads := idle_read,
             supplies := Some [\<lparr>power_now = Some 7000000, voltage_now = None,
                                current_now = None\<rparr>]\<rparr>"

definition laptop_state :: app_state where
  "laptop_state = (initial_state [pkg0])\<lparr>rapl := idle_reader\<rparr>"

text \<open>
  The state after one successful refresh of the GPU, connection-state and process
  caches at time 1000.
\<close>

definition warm_state :: app_state where
  "warm_state =
     snd (get_top_processes 1000 example_processes
       (snd (get_connection_states 1000 (Some example_conns)
         (snd (get_gpu_info 1000 (Some [(''0x8086'', ''0x46d4'')]) (initial_state []))))))"

section \<open>Properties of the history buffers\<close>

lemma deque_append_drop:
  assumes "length q \<le> n"
  shows "deque_append n x q = drop (length q + 1 - n) (q @ [x])"
proof (cases "length q = n")
  case True
  have "tl (q @ [x]) = drop 1 (q @ [x])"
    by (simp only: One_nat_def drop_Suc drop_0)
  moreover from True have "length q + 1 - n = 1" by simp
  ultimately show ?thesis
    using True by (simp only: deque_append_def Let_def length_append list.size) simp
next
  case False
  with assms have "length q < n" by simp
  then show ?thesis
    by (simp add: deque_append_def)
qed

lemma drop_drop_append:
  "k \<le> length l \<Longrightarrow> drop a (drop k l @ xs) = drop (a + k) (l @ xs)"
proof -
  assume "k \<le> length l"
  then have "drop k l @ xs = drop k (l @ xs)" by simp
  then show ?thesis by (simp only: drop_drop)
qed

lemma fold_deque_append:
  "length q \<le> n \<Longrightarrow>
   fold (deque_append n) xs q = drop (length q + length xs - n) (q @ xs)"
proof (induction xs arbitrary: q)
  case Nil
  then show ?case by simp
next
  case (Cons x xs)
  define k where "k = length q + 1 - n"
  let ?q' = "deque_append n x q"
  have q': "?q' = drop k (q @ [x])"
    unfolding k_def using Cons.prems by (rule deque_append_drop)
  have k: "k \<le> length (q @ [x])"
    by (simp add: k_def)
  have len: "length ?q' = length q + 1 - k"
    by (simp add: q')
  have len_le: "length ?q' \<le> n"
    using Cons.prems by (simp add: len k_def)
  have "fold (deque_append n) (x # xs) q = fold (deque_append n) xs ?q'"
    by simp
  also have "\<dots> = drop (length ?q' + length xs - n) (?q' @ xs)"
    using len_le by (rule Cons.IH)
  also have "\<dots> = drop (length ?q' + length xs - n + k) ((q @ [x]) @ xs)"
    unfolding q' using k by (rule drop_drop_append)
  also have "length ?q' + length xs - n + k = length q + length (x # xs) - n"
    using Cons.prems by (simp add: len k_def)
  finally show ?case by simp
qed

lemma history_pushes_drop:
  "length h \<le> 60 \<Longrightarrow> history_pushes xs h = drop (length h + length xs - 60) (h @ xs)"
  unfolding history_pushes_def history_append_def history_maxlen_def
  by (rule fold_deque_append)

text \<open>
  C5. Pushing capacity + 1 = 61 items into a history buffer (capacity 60) leaves exactly
  the 60 items pushed last, in the order they were pushed: the first pushed item is gone
  and the last pushed item is the newest entry. Pushing at most 60 items into the empty
  buffer keeps them all, in order; pushed into a buffer that already holds entries they
  are all present, in order, as its newest entries.
\<close>

theorem history_buffer_capacity:
  fixes xs h :: "'a list"
  assumes h: "length h \<le> history_maxlen"
  shows "(length xs = history_maxlen + 1 \<longrightarrow>
            history_pushes xs h = tl xs \<and>
            length (history_pushes xs h) = history_maxlen \<and>
            last (history_pushes xs h) = last xs \<and>
            (distinct xs \<longrightarrow> hd xs \<notin> set (history_pushes xs h))) \<and>
         (length xs \<le> history_maxlen \<longrightarrow>
            suffix xs (history_pushes xs h) \<and> history_pushes xs [] = xs)"
proof (intro conjI impI)
  assume n: "length xs = history_maxlen + 1"
  from h have h60: "length h \<le> 60" by (simp add: history_maxlen_def)
  from n have n61: "length xs = 61" by (simp add: history_maxlen_def)
  have "history_pushes xs h = drop (length h + 1) (h @ xs)"
    using history_pushes_drop [OF h60, of xs] n61 by simp
  then show eq: "history_pushes xs h = tl xs"
    by (simp add: drop_Suc drop_tl)
  from n61 obtain y ys where xs: "xs = y # ys" by (cases xs) auto
  with n61 have ys: "length ys = 60" by simp
  show "length (history_pushes xs h) = history_maxlen"
    using eq ys xs by (simp add: history_maxlen_def)
  from ys have "ys \<noteq> []" by auto
  then show "last (history_pushes xs h) = last xs"
    using eq xs by simp
  show "hd xs \<notin> set (history_pushes xs h)" if "distinct xs"
    using that eq xs by simp
next
  assume n: "length xs \<le> history_maxlen"
  from h have h60: "length h \<le> 60" by (simp add: history_maxlen_def)
  have "history_pushes xs h = drop (length h + length xs - 60) (h @ xs)"
    using h60 by (rule history_pushes_drop)
  moreover have "length h + length xs - 60 \<le> length h"
    using n by (simp add: history_maxlen_def)
  ultimately have "history_pushes xs h = drop (length h + length xs - 60) h @ xs"
    by simp
  then show "suffix xs (history_pushes xs h)"
    by (simp add: suffix_def)
  show "history_pushes xs [] = xs"
    using history_pushes_drop [of "[]" xs] n by (simp add: history_maxlen_def)
qed

theorem history_buffer_capacity_witness:
  "length ([] :: nat list) \<le> history_maxlen \<and>
   length [0..<61] = history_maxlen + 1 \<and>
   history_pushes [0..<61] [] = [1..<61] \<and>
   length (history_pushes [0..<61] []) = 60 \<and>
   last (history_pushes [0..<61] []) = 60 \<and>
   0 \<notin> set (history_pushes [0..<61] []) \<and>
   length [7, 8, 9 :: nat] \<le> history_maxlen \<and>
   history_pushes [7, 8, 9 :: nat] [] = [7, 8, 9]"
  using history_buffer_capacity [of "[]" "[0..<61]"]
    history_buffer_capacity [of "[]" "[7, 8, 9 :: nat]"]
  by (simp add: history_maxlen_def)

section \<open>Properties of the RAPL reader\<close>

lemma snd_sample_domain:
  "snd (sample_domain now rd d acc) =
     (case rd (energy_file d) of
        None \<Rightarrow> snd acc
      | Some e \<Rightarrow> (snd acc)(path d \<mapsto> (now, e)))"
  by (cases acc) (simp add: sample_domain_def Let_def split: option.split)

lemma energy_file_eq_iff: "energy_file d' = energy_file d \<longleftrightarrow> path d' = path d"
  by (simp add: energy_file_def path_join_def)

lemma fold_keeps_current_reading:
  assumes "rd (energy_file d) = Some e"
    and "snd acc (path d) = Some (now, e)"
  shows "snd (fold (sample_domain now rd) ds acc) (path d) = Some (now, e)"
  using assms(2)
proof (induction ds arbitrary: acc)
  case Nil
  then show ?case by simp
next
  case (Cons d' ds)
  have "snd (sample_domain now rd d' acc) (path d) = Some (now, e)"
  proof (cases "path d' = path d")
    case True
    then have "rd (energy_file d') = Some e"
      using assms(1) by (simp add: energy_file_def path_join_def)
    then show ?thesis
      using True by (simp add: snd_sample_domain)
  next
    case False
    then show ?thesis
      using Cons.prems by (simp add: snd_sample_domain split: option.split)
  qed
  then show ?case
    by (simp add: Cons.IH)
qed

lemma fold_stores_current_reading:
  assumes "rd (energy_file d) = Some e"
    and "d \<in> set ds"
  shows "snd (fold (sample_domain now rd) ds acc) (path d) = Some (now, e)"
  using assms(2)
proof (induction ds arbitrary: acc)
  case Nil
  then show ?case by simp
next
  case (Cons d' ds)
  show ?case
  proof (cases "d' = d")
    case True
    have "snd (sample_domain now rd d acc) (path d) = Some (now, e)"
      using assms(1) by (simp add: snd_sample_domain)
    then show ?thesis
      using True assms(1) by (simp add: fold_keeps_current_reading)
  next
    case False
    with Cons.prems have "d \<in> set ds" by simp
    then show ?thesis
      by (simp add: Cons.IH)
  qed
qed

lemma path_init_domain: "init_domain name_of range_of p = Some d \<Longrightarrow> path d = p"
  by (auto simp: init_domain_def Let_def split: option.splits range_read.splits)

lemma paths_init_domains:
  "map path (init_domains (Some ds) name_of range_of) =
     filter (\<lambda>p. init_domain name_of range_of p \<noteq> None)
       (map (path_join base_path)
          (filter (\<lambda>d. sublist ''intel-rapl'' d \<and> CHR '':'' \<in> set d) ds))"
proof -
  have "map path (List.map_filter (init_domain name_of range_of) ps) =
      filter (\<lambda>p. init_domain name_of range_of p \<noteq> None) ps" for ps
    by (induction ps) (auto simp: List.map_filter_simps path_init_domain split: option.split)
  then show ?thesis
    by (simp add: init_domains_def)
qed

text \<open>
  The paths of the discovered domains are pairwise different, as the entries of a
  directory are.
\<close>

lemma distinct_paths_init_domains:
  assumes "distinct ds"
  shows "distinct (map path (init_domains (Some ds) name_of range_of))"
proof -
  have "inj (path_join base_path)"
    by (simp add: inj_def path_join_def)
  then have "distinct (map (path_join base_path)
      (filter (\<lambda>d. sublist ''intel-rapl'' d \<and> CHR '':'' \<in> set d) ds))"
    using assms by (simp add: distinct_map inj_on_def inj_def)
  then show ?thesis
    by (simp only: paths_init_domains distinct_filter)
qed

text \<open>
  Display names need not be: the discovery gives both \<^verbatim>\<open>intel-rapl:0\<close> and
  \<^verbatim>\<open>intel-rapl-mmio:0\<close> the name \<^verbatim>\<open>Package-0\<close>.
\<close>

lemma twin_discovery:
  "init_domains (Some [''intel-rapl'', ''intel-rapl:0'', ''intel-rapl-mmio:0''])
     twin_names twin_ranges = domains twin_reader"
  by code_simp

lemma domains_cleanup [simp]: "domains (cleanup now r) = domains r"
  by (simp add: cleanup_def Let_def)

text \<open>
  C3. A domain of the reader whose energy file is read successfully during
  \<^verbatim>\<open>get_power_stats\<close> has, afterwards, the pair (time of this call, value just read) as
  its stored reading. Nothing is assumed about the reading stored before: there may be
  none (first reading), and the sample may have been discarded for a non-positive time
  delta or a negative corrected energy delta.
\<close>

theorem get_power_stats_overwrites_reading:
  assumes "d \<in> set (domains r)"
    and "rd (energy_file d) = Some e"
  shows "last_readings (snd (get_power_stats now rd r)) (path d) = Some (now, e)"
  using assms
  by (simp add: get_power_stats_def Let_def fold_stores_current_reading)

theorem get_power_stats_overwrites_reading_witness:
  "pkg0_mmio \<in> set (domains twin_reader) \<and>
   twin_read (energy_file pkg0_mmio) = Some 100 \<and>
   last_readings twin_reader (path pkg0_mmio) = Some (0, 500) \<and>
   corrected_de pkg0_mmio 100 500 < 0 \<and>
   last_readings (snd (get_power_stats 1 twin_read twin_reader)) (path pkg0_mmio) =
     Some (1, 100)"
  using get_power_stats_overwrites_reading [of pkg0_mmio twin_reader twin_read 100 1]
  by (simp add: twin_reader_def twin_read_def pkg0_mmio_def pkg0_def energy_file_def path_join_def
      corrected_de_def)










section \<open>Properties of the process table\<close>

lemma py_sort_reverse_descending:
  "sorted_wrt (\<lambda>a b. key b \<le> key a) (py_sort_reverse key xs)"
proof -
  have "sorted (map key (sort_key key (rev xs)))"
    by (rule sorted_sort_key)
  then have "sorted_wrt (\<lambda>a b. key a \<le> key b) (sort_key key (rev xs))"
    by (simp add: sorted_wrt_map)
  then show ?thesis
    by (simp add: py_sort_reverse_def sorted_wrt_rev)
qed

lemma py_sort_reverse_mset: "mset (py_sort_reverse key xs) = mset xs"
  by (simp add: py_sort_reverse_def)

lemma py_sort_reverse_stable:
  "filter (\<lambda>x. key x = k) (py_sort_reverse key xs) = filter (\<lambda>x. key x = k) xs"
proof -
  have "filter (\<lambda>x. key x = k) (sort_key key (rev xs)) = filter (\<lambda>x. key x = k) (rev xs)"
    by (rule sort_key_stable)
  then show ?thesis
    by (simp add: py_sort_reverse_def rev_filter [symmetric])
qed

text \<open>
  C7. When \<^verbatim>\<open>get_top_processes\<close> refreshes, the list it returns and caches is the gathered
  list rearranged (same records, same multiplicities) into descending order of
  \<^verbatim>\<open>memory_percent\<close>, and the records of any one memory percentage are in the order they
  had in the input.
\<close>

theorem get_top_processes_sorted:
  assumes "5 < now - last_process_time st"
  shows "sorted_wrt (\<lambda>a b. memory_percent b \<le> memory_percent a)
           (fst (get_top_processes now raw st)) \<and>
         mset (fst (get_top_processes now raw st)) = mset raw \<and>
         (\<forall>m. filter (\<lambda>p. memory_percent p = m) (fst (get_top_processes now raw st)) =
              filter (\<lambda>p. memory_percent p = m) raw) \<and>
         process_cache (snd (get_top_processes now raw st)) = fst (get_top_processes now raw st)"
  using assms
  by (simp add: get_top_processes_def Let_def py_sort_reverse_descending
      py_sort_reverse_mset py_sort_reverse_stable)

theorem get_top_processes_sorted_witness:
  "5 < (10 :: rat) - last_process_time (initial_state []) \<and>
   fst (get_top_processes 10 example_processes (initial_state [])) =
     [example_processes ! 1, example_processes ! 2, example_processes ! 0] \<and>
   filter (\<lambda>p. memory_percent p = 2) (fst (get_top_processes 10 example_processes (initial_state []))) =
     [example_processes ! 1, example_processes ! 2]"
  using get_top_processes_sorted [of 10 "initial_state []" example_processes]
  by (simp add: get_top_processes_def Let_def py_sort_reverse_def example_processes_def
      initial_state_def)

lemma pid_map_from_Some:
  "pid_map_from i ps m q = Some k \<Longrightarrow>
     m q = Some k \<or> (i \<le> k \<and> k - i < length ps \<and> pid (ps ! (k - i)) = q)"
proof (induction ps arbitrary: i m)
  case Nil
  then show ?case by simp
next
  case (Cons p ps)
  from Cons.prems have "pid_map_from (Suc i) ps (m(pid p \<mapsto> i)) q = Some k"
    by simp
  from Cons.IH [OF this]
  consider "(m(pid p \<mapsto> i)) q = Some k"
    | "Suc i \<le> k" "k - Suc i < length ps" "pid (ps ! (k - Suc i)) = q"
    by blast
  then show ?case
  proof cases
    case 1
    then show ?thesis by (cases "q = pid p") simp_all
  next
    case 2
    then have "k - i = Suc (k - Suc i)" by simp
    with 2 show ?thesis by simp
  qed
qed

lemma dom_pid_map_from: "dom (pid_map_from i ps m) = dom m \<union> pid ` set ps"
  by (induction ps arbitrary: i m) auto

lemma pid_map_Some: "pid_map ps q = Some j \<Longrightarrow> j < length ps \<and> pid (ps ! j) = q"
  unfolding pid_map_def using pid_map_from_Some [of 0 ps Map.empty q j] by simp

lemma dom_pid_map: "dom (pid_map ps) = pid ` set ps"
  by (simp add: pid_map_def dom_pid_map_from)

lemma pid_map_None: "pid_map ps q = None \<longleftrightarrow> q \<notin> pid ` set ps"
  unfolding dom_pid_map [symmetric] by (simp add: domIff)

lemma link_process_children:
  "length (children (link_process ps m i t)) = length (children t)"
  "j < length (children t) \<Longrightarrow> children (link_process ps m i t) ! j =
      children t ! j @ (if m (ppid_of (ps ! i)) = Some j then [i] else [])"
  "root_processes (link_process ps m i t) =
      root_processes t @ (if m (ppid_of (ps ! i)) = None then [i] else [])"
  by (simp_all add: link_process_def nth_list_update split: option.split)

lemma fold_link:
  "length (children (fold (link_process ps m) is t)) = length (children t) \<and>
     (\<forall>j < length (children t). children (fold (link_process ps m) is t) ! j =
         children t ! j @ filter (\<lambda>i. m (ppid_of (ps ! i)) = Some j) is) \<and>
     root_processes (fold (link_process ps m) is t) =
         root_processes t @ filter (\<lambda>i. m (ppid_of (ps ! i)) = None) is"
proof (induction "is" arbitrary: t)
  case Nil
  then show ?case by simp
next
  case (Cons i "is")
  let ?t' = "link_process ps m i t"
  note IH = Cons.IH [of ?t']
  show ?case
    using IH by (simp add: link_process_children)
qed

lemma build_process_tree_char:
  "length (children (build_process_tree ps)) = length ps"
  "j < length ps \<Longrightarrow> children (build_process_tree ps) ! j =
      filter (\<lambda>i. pid_map ps (ppid_of (ps ! i)) = Some j) [0..<length ps]"
  "root_processes (build_process_tree ps) =
      filter (\<lambda>i. ppid_of (ps ! i) \<notin> pid ` set ps) [0..<length ps]"
  using fold_link [of ps "pid_map ps" "[0..<length ps]"
      "\<lparr>children = replicate (length ps) [], root_processes = []\<rparr>"]
  by (simp_all add: build_process_tree_def pid_map_None)

lemma pid_map_distinct:
  assumes "distinct (map pid ps)" and "j < length ps"
  shows "pid_map ps (pid (ps ! j)) = Some j"
proof -
  have "pid_map ps (pid (ps ! j)) \<noteq> None"
    using assms(2) by (simp add: pid_map_None)
  then obtain k where k: "pid_map ps (pid (ps ! j)) = Some k" by blast
  then have kl: "k < length ps" and "pid (ps ! k) = pid (ps ! j)"
    using pid_map_Some [of ps "pid (ps ! j)" k] by simp_all
  then have "map pid ps ! k = map pid ps ! j"
    using assms(2) by simp
  moreover have "k < length (map pid ps)" "j < length (map pid ps)"
    using kl assms(2) by simp_all
  ultimately have "k = j"
    using assms(1) by (simp only: nth_eq_iff_index_eq)
  with k show ?thesis by simp
qed

text \<open>
  C8. Records are named by their position in the input list. The roots returned by
  \<^verbatim>\<open>build_process_tree\<close> are, in input order, exactly the records whose parent pid
  (\<^verbatim>\<open>p.get('ppid', 0)\<close>) is the pid of no record of the input. Every other record is in
  the \<^verbatim>\<open>children\<close> list of a record whose pid is its parent pid; when the pids of the
  input are pairwise different, as in a process snapshot, that is the one record with
  this pid.
\<close>

theorem build_process_tree_roots_children:
  "root_processes (build_process_tree ps) =
     filter (\<lambda>i. ppid_of (ps ! i) \<notin> pid ` set ps) [0..<length ps] \<and>
   (\<forall>i < length ps. i \<notin> set (root_processes (build_process_tree ps)) \<longrightarrow>
      (\<exists>j < length ps. pid (ps ! j) = ppid_of (ps ! i) \<and>
                        i \<in> set (children (build_process_tree ps) ! j))) \<and>
   (distinct (map pid ps) \<longrightarrow>
      (\<forall>i < length ps. \<forall>j < length ps. pid (ps ! j) = ppid_of (ps ! i) \<longrightarrow>
         i \<in> set (children (build_process_tree ps) ! j)))"
proof (intro conjI allI impI)
  show "root_processes (build_process_tree ps) =
      filter (\<lambda>i. ppid_of (ps ! i) \<notin> pid ` set ps) [0..<length ps]"
    by (rule build_process_tree_char)
next
  fix i
  assume i: "i < length ps" and nr: "i \<notin> set (root_processes (build_process_tree ps))"
  from nr i have "ppid_of (ps ! i) \<in> pid ` set ps"
    by (simp add: build_process_tree_char(3))
  then have "pid_map ps (ppid_of (ps ! i)) \<noteq> None"
    by (simp add: pid_map_None)
  then obtain j where j: "pid_map ps (ppid_of (ps ! i)) = Some j" by blast
  then have jl: "j < length ps" and jp: "pid (ps ! j) = ppid_of (ps ! i)"
    using pid_map_Some [of ps "ppid_of (ps ! i)" j] by simp_all
  have "i \<in> set (children (build_process_tree ps) ! j)"
    using i j jl by (simp add: build_process_tree_char(2))
  with jl jp
  show "\<exists>j < length ps. pid (ps ! j) = ppid_of (ps ! i) \<and>
      i \<in> set (children (build_process_tree ps) ! j)"
    by blast
next
  fix i j
  assume d: "distinct (map pid ps)" and i: "i < length ps" and j: "j < length ps"
    and p: "pid (ps ! j) = ppid_of (ps ! i)"
  have "pid_map ps (ppid_of (ps ! i)) = Some j"
    using pid_map_distinct [OF d j] p by simp
  then show "i \<in> set (children (build_process_tree ps) ! j)"
    using i j by (simp add: build_process_tree_char(2))
qed

lemma build_example_tree:
  "build_process_tree example_processes = \<lparr>children = [[1], [], []], root_processes = [0, 2]\<rparr>"
  by code_simp

text \<open>
  The example of the specification: of the processes (pid 1, ppid 0), (pid 2, ppid 1)
  and (pid 3, ppid 99) the roots are pid 1 and pid 3, and pid 2 is a child of pid 1.
\<close>

theorem build_process_tree_roots_children_witness:
  "distinct (map pid example_processes) \<and>
   map (\<lambda>i. pid (example_processes ! i)) (root_processes (build_process_tree example_processes)) =
     [1, 3] \<and>
   (1 :: nat) < length example_processes \<and>
   1 \<notin> set (root_processes (build_process_tree example_processes)) \<and>
   pid (example_processes ! 1) = 2 \<and>
   pid (example_processes ! 0) = ppid_of (example_processes ! 1) \<and>
   1 \<in> set (children (build_process_tree example_processes) ! 0)"
  using build_process_tree_roots_children [of example_processes]
  by (simp add: build_example_tree) (simp add: example_processes_def ppid_of_def)

section \<open>Properties of get_listening_ports\<close>

lemma listening_port_set_Nil: "listening_port_set [] = {}"
  by (simp add: listening_port_set_def)

lemma listening_port_set_Cons:
  "listening_port_set (c # cs) =
     (case laddr c of
        None \<Rightarrow> {}
      | Some a \<Rightarrow> if status c = ''LISTEN'' then {snd a} else {}) \<union> listening_port_set cs"
  by (auto simp: listening_port_set_def split: option.splits if_splits)

lemma keys_add_listener:
  "fst ` set (add_listener names c lp) =
     (case laddr c of
        None \<Rightarrow> {}
      | Some a \<Rightarrow> if status c = ''LISTEN'' then {snd a} else {}) \<union> fst ` set lp"
  by (simp add: add_listener_def Let_def AList.dom_update split: option.split)

lemma distinct_add_listener:
  "distinct (map fst lp) \<Longrightarrow> distinct (map fst (add_listener names c lp))"
  by (simp add: add_listener_def Let_def AList.distinct_update split: option.split)

lemma fold_add_listener:
  "distinct (map fst lp) \<Longrightarrow>
   distinct (map fst (fold (add_listener names) cs lp)) \<and>
   fst ` set (fold (add_listener names) cs lp) = fst ` set lp \<union> listening_port_set cs"
proof (induction cs arbitrary: lp)
  case Nil
  then show ?case by (simp add: listening_port_set_Nil)
next
  case (Cons c cs)
  have "distinct (map fst (add_listener names c lp))"
    using Cons.prems by (rule distinct_add_listener)
  from Cons.IH [OF this] show ?case
    by (simp add: keys_add_listener listening_port_set_Cons Un_ac)
qed

lemma sorted_keys:
  assumes "distinct ks"
  shows "sort ks = sorted_list_of_set (set ks)"
  using assms by (simp add: sorted_list_of_set_sort_remdups distinct_remdups_id)

lemma ports_of_get_listening_ports:
  "map port (get_listening_ports names (Some cs)) =
     take 20 (sorted_list_of_set (listening_port_set cs))"
proof -
  let ?lp = "fold (add_listener names) cs []"
  have d: "distinct (map fst ?lp)" and k: "fst ` set ?lp = listening_port_set cs"
    using fold_add_listener [of "[]" names cs] by simp_all
  have "sort (map fst ?lp) = sorted_list_of_set (listening_port_set cs)"
    using sorted_keys [OF d] k by simp
  then show ?thesis
    by (simp add: get_listening_ports_def Let_def comp_def)
qed

text \<open>
  C10. Whatever the connection table holds, \<^verbatim>\<open>get_listening_ports\<close> returns at most 20
  entries; their ports are the 20 smallest of the ports that some connection listens
  on (all of them when there are fewer), each once, in strictly ascending order. When
  enumerating the connections fails, the result is the empty list.
\<close>

theorem get_listening_ports_smallest_20:
  "get_listening_ports names None = [] \<and>
   length (get_listening_ports names (Some cs)) \<le> 20 \<and>
   map port (get_listening_ports names (Some cs)) =
     take 20 (sorted_list_of_set (listening_port_set cs)) \<and>
   sorted_wrt (<) (map port (get_listening_ports names (Some cs))) \<and>
   distinct (map port (get_listening_ports names (Some cs)))"
proof -
  let ?r = "get_listening_ports names (Some cs)"
  have ports: "map port ?r = take 20 (sorted_list_of_set (listening_port_set cs))"
    by (rule ports_of_get_listening_ports)
  have "length (map port ?r) \<le> 20"
    unfolding ports by simp
  then have len: "length ?r \<le> 20" by simp
  have asc: "sorted_wrt (<) (map port ?r)"
    unfolding ports by (rule sorted_wrt_take) simp
  then have "distinct (map port ?r)"
    by (simp add: strict_sorted_iff)
  moreover have "get_listening_ports names None = []"
    by (simp add: get_listening_ports_def)
  ultimately show ?thesis
    using ports len asc by simp
qed

lemma example_listening_ports:
  "get_listening_ports example_names (Some example_conns) =
     [\<lparr>port = 22, protocol = ''TCP:sshd''\<rparr>, \<lparr>port = 80, protocol = ''TCP:PID 7''\<rparr>]"
  by code_simp

theorem get_listening_ports_smallest_20_witness:
  "map port (get_listening_ports example_names (Some example_conns)) = [22, 80] \<and>
   take 20 (sorted_list_of_set (listening_port_set example_conns)) = [22, 80]"
  using get_listening_ports_smallest_20 [of example_names example_conns]
  by (simp add: example_listening_ports)

section \<open>Properties of get_size\<close>

lemma get_size_units_in_range:
  "units \<noteq> [] \<Longrightarrow> 0 \<le> b \<Longrightarrow> b < 1024 ^ length units \<Longrightarrow>
   \<exists>k < length units.
     get_size_units b sfx units =
       Some (format_2f (b / 1024 ^ k) @ '' '' @ units ! k @ ''i'' @ sfx) \<and>
     b / 1024 ^ k < 1024 \<and> (k = 0 \<or> 1 \<le> b / 1024 ^ k)"
proof (induction units arbitrary: b)
  case Nil
  then show ?case by simp
next
  case (Cons unit units)
  show ?case
  proof (cases "b < 1024")
    case True
    then have "get_size_units b sfx (unit # units) =
        Some (format_2f (b / 1024 ^ 0) @ '' '' @ (unit # units) ! 0 @ ''i'' @ sfx)"
      by simp
    with True show ?thesis by (intro exI [of _ 0]) simp
  next
    case False
    then have ge: "1 \<le> b / 1024" by simp
    have nonneg: "0 \<le> b / 1024" using Cons.prems(2) by simp
    have lt: "b / 1024 < 1024 ^ length units"
      using Cons.prems(3) by simp
    have "units \<noteq> []"
    proof
      assume "units = []"
      with lt have "b / 1024 < 1" by simp
      with ge show False by simp
    qed
    from Cons.IH [OF this nonneg lt]
    obtain k where k: "k < length units"
      "get_size_units (b / 1024) sfx units =
         Some (format_2f (b / 1024 / 1024 ^ k) @ '' '' @ units ! k @ ''i'' @ sfx)"
      "b / 1024 / 1024 ^ k < 1024" "k = 0 \<or> 1 \<le> b / 1024 / 1024 ^ k"
      by blast
    have eq: "b / 1024 / 1024 ^ k = b / 1024 ^ Suc k" by simp
    have "1 \<le> b / 1024 / 1024 ^ k"
      using k(4) ge by (cases "k = 0") simp_all
    then have one: "1 \<le> b / 1024 ^ Suc k"
      by (simp only: eq)
    have "get_size_units b sfx (unit # units) =
        Some (format_2f (b / 1024 ^ Suc k) @ '' '' @ (unit # units) ! Suc k @ ''i'' @ sfx)"
      using False k(2) by (simp only: get_size_units.simps if_False eq nth_Cons_Suc)
    moreover have "b / 1024 ^ Suc k < 1024"
      using k(3) by (simp only: eq)
    moreover have "Suc k < length (unit # units)"
      using k(1) by simp
    ultimately show ?thesis
      using one by blast
  qed
qed

lemma get_size_units_exhausted:
  "1024 ^ length units \<le> b \<Longrightarrow> get_size_units b sfx units = None"
proof (induction units arbitrary: b)
  case Nil
  then show ?case by simp
next
  case (Cons unit units)
  then have b: "1024 * 1024 ^ length units \<le> b" by simp
  have "(1 :: rat) \<le> 1024 ^ length units" by simp
  then have "(1024 :: rat) \<le> 1024 * 1024 ^ length units"
    by simp
  with b have "\<not> b < 1024" by linarith
  moreover from b have "1024 ^ length units \<le> b / 1024"
    by (simp add: le_divide_eq mult.commute)
  ultimately show ?case
    using Cons.IH [of "b / 1024"] by simp
qed

text \<open>
  Below \<open>1024 ^ 6\<close> bytes \<^verbatim>\<open>get_size\<close> formats as specified: the value is scaled by the
  largest power of 1024 that leaves it at least 1 (bytes below 1024 are not scaled) and
  written with two decimals, a space, the unit letter and \<^verbatim>\<open>iB\<close>. From \<open>1024 ^ 6\<close> on
  it returns \<^verbatim>\<open>None\<close>.
\<close>

lemma length_size_units: "length size_units = 6" and size_units_nonempty: "size_units \<noteq> []"
  by (simp_all add: size_units_def)

lemma get_size_in_range:
  assumes "0 \<le> b" and "b < 1024 ^ 6"
  shows "\<exists>k < 6. get_size b sfx =
           Some (format_2f (b / 1024 ^ k) @ '' '' @ size_units ! k @ ''i'' @ sfx) \<and>
         b / 1024 ^ k < 1024 \<and> (k = 0 \<or> 1 \<le> b / 1024 ^ k)"
proof -
  have "b < 1024 ^ length size_units"
    using assms(2) by (simp only: length_size_units)
  from get_size_units_in_range [OF size_units_nonempty assms(1) this, of sfx]
  show ?thesis
    by (simp only: get_size_def length_size_units)
qed

lemma get_size_out_of_range:
  assumes "1024 ^ 6 \<le> b"
  shows "get_size b sfx = None"
proof -
  have "1024 ^ length size_units \<le> b"
    using assms by (simp only: length_size_units)
  then show ?thesis
    unfolding get_size_def by (rule get_size_units_exhausted)
qed

text \<open>
  C9 at one exbibyte and beyond: the six units are used up, the loop ends and the
  function returns \<^verbatim>\<open>None\<close>, not a string.
\<close>

theorem get_size_exbibyte:
  "get_size (1024 ^ 6) ''B'' = None \<and> get_size 1258291 ''B'' = Some ''1.20 MiB''"
proof
  show "get_size (1024 ^ 6) ''B'' = None"
    by (rule get_size_out_of_range) simp
  show "get_size 1258291 ''B'' = Some ''1.20 MiB''"
    by code_simp
qed

section \<open>Properties of collect_stats\<close>

lemma histories_get_connection_states:
  "cpu_temp_history (snd (get_connection_states now conns st)) = cpu_temp_history st"
  "memory_history (snd (get_connection_states now conns st)) = memory_history st"
  by (simp_all add: get_connection_states_def Let_def)

lemma histories_get_ssh_stats:
  "cpu_temp_history (snd (get_ssh_stats now conns who ex st)) = cpu_temp_history st"
  "memory_history (snd (get_ssh_stats now conns who ex st)) = memory_history st"
  by (simp_all add: get_ssh_stats_def Let_def split: option.split)

lemma histories_get_top_processes:
  "cpu_temp_history (snd (get_top_processes now gathered st)) = cpu_temp_history st"
  "memory_history (snd (get_top_processes now gathered st)) = memory_history st"
  by (simp_all add: get_top_processes_def Let_def)

lemma histories_refresh_partitions:
  "cpu_temp_history (refresh_partitions now parts st) = cpu_temp_history st"
  "memory_history (refresh_partitions now parts st) = memory_history st"
  by (simp_all add: refresh_partitions_def)

lemmas histories_kept =
  histories_get_connection_states histories_get_ssh_stats histories_get_top_processes
  histories_refresh_partitions

lemma collect_stats_memory_history:
  "memory_history (snd (collect_stats os st)) =
     history_append (mem_sample_of (clock os) (svmem os)) (memory_history st)"
  by (simp add: collect_stats_def Let_def histories_kept)

lemma collect_stats_cpu_temp_history:
  "cpu_temp_history (snd (collect_stats os st)) =
     (if core_temps (temps os) \<noteq> []
      then history_append (temp_sample_of (clock os) (core_temps (temps os))) (cpu_temp_history st)
      else cpu_temp_history st)"
  by (simp add: collect_stats_def Let_def histories_kept)

lemma collect_stats_snapshot_histories:
  "temp_history (fst (collect_stats os st)) = cpu_temp_history (snd (collect_stats os st))"
  "history (fst (collect_stats os st)) = memory_history (snd (collect_stats os st))"
  by (simp_all add: collect_stats_def Let_def)












text \<open>
  C6, as the code has it. Every call of \<^verbatim>\<open>collect_stats\<close> appends exactly one sample to
  the memory history. It appends one sample to the CPU temperature history when the
  sensors yield at least one core temperature, and none otherwise. Both hold for every
  state of the caches, refreshed in this call or not, and the snapshot carries the two
  histories as they are after the call.
\<close>

theorem collect_stats_histories:
  "memory_history (snd (collect_stats os st)) =
     history_append (mem_sample_of (clock os) (svmem os)) (memory_history st) \<and>
   cpu_temp_history (snd (collect_stats os st)) =
     (if core_temps (temps os) \<noteq> []
      then history_append (temp_sample_of (clock os) (core_temps (temps os)))
             (cpu_temp_history st)
      else cpu_temp_history st) \<and>
   history (fst (collect_stats os st)) = memory_history (snd (collect_stats os st)) \<and>
   temp_history (fst (collect_stats os st)) = cpu_temp_history (snd (collect_stats os st))"
  by (simp only: collect_stats_memory_history collect_stats_cpu_temp_history
      collect_stats_snapshot_histories)

lemma laptop_core_temps: "core_temps (temps laptop_os) = [45]"
  by code_simp

lemma bare_core_temps: "core_temps (temps bare_os) = []"
  by (simp add: bare_os_def core_temps_def)

theorem collect_stats_histories_witness:
  "core_temps (temps laptop_os) = [45] \<and>
   cpu_temp_history (snd (collect_stats laptop_os laptop_state)) =
     [\<lparr>temp_time = 50, avg = 45, cores = [45]\<rparr>] \<and>
   memory_history (snd (collect_stats laptop_os laptop_state)) =
     [\<lparr>mem_time = 50, mem_percent = 50, used = 4000000000, available = 4000000000\<rparr>]"
  using collect_stats_histories [of laptop_os laptop_state]
  by (simp add: laptop_core_temps)
    (simp add: laptop_os_def bare_os_def laptop_state_def initial_state_def
      history_append_def deque_append_def history_maxlen_def temp_sample_of_def
      mem_sample_of_def py_round_def)

text \<open>
  The claim as worded fails on a host without core temperature sensors: the call
  leaves the CPU temperature history as it was, and the memory history gets its sample.
\<close>

theorem collect_stats_histories_counterexample:
  "cpu_temp_history warm_state = [] \<and>
   cpu_temp_history (snd (collect_stats bare_os warm_state)) = [] \<and>
   length (memory_history (snd (collect_stats bare_os warm_state))) = 1"
proof -
  have w: "cpu_temp_history warm_state = []" "memory_history warm_state = []"
    by (simp_all add: warm_state_def histories_get_top_processes
        histories_get_connection_states get_gpu_info_def Let_def initial_state_def)
  show ?thesis
    by (simp add: collect_stats_cpu_temp_history collect_stats_memory_history w
        bare_core_temps history_append_def deque_append_def history_maxlen_def)
qed


section \<open>Properties of the cached collectors\<close>

lemma get_ssh_stats_failed:
  assumes "case conns of None \<Rightarrow> True | Some cs \<Rightarrow> ssh_scan who cs fresh_ssh_stats = None"
  shows "fst (get_ssh_stats now conns who ex st) = ssh_stats_cache st"
    and "ssh_stats_cache (snd (get_ssh_stats now conns who ex st)) = ssh_stats_cache st"
  using assms
  by (simp_all add: get_ssh_stats_def Let_def split: option.splits)

lemma get_gpu_info_failed:
  assumes "60 < now - last_gpu_info_time st"
  shows "fst (get_gpu_info now None st) = Some ''Unknown GPU''"
    and "gpu_info_cache (snd (get_gpu_info now None st)) = Some ''Unknown GPU''"
  using assms by (simp_all add: get_gpu_info_def Let_def)

lemma get_connection_states_failed:
  assumes "10 < now - last_connection_states_time st"
  shows "fst (get_connection_states now None st) = zero_states"
    and "connection_states_cache (snd (get_connection_states now None st)) = zero_states"
  using assms by (simp_all add: get_connection_states_def Let_def)

lemma get_top_processes_failed:
  assumes "5 < now - last_process_time st"
  shows "fst (get_top_processes now [] st) = []"
    and "process_cache (snd (get_top_processes now [] st)) = []"
  using assms by (simp_all add: get_top_processes_def Let_def py_sort_reverse_def)

text \<open>
  C4, as the code has it. When the connection enumeration of \<^verbatim>\<open>get_ssh_stats\<close> fails,
  the SSH cache keeps its stored value and the call returns it. The other three caches
  store what a failed refresh leaves behind: \<^verbatim>\<open>get_gpu_info\<close> stores and returns
  \<^verbatim>\<open>"Unknown GPU"\<close>, \<^verbatim>\<open>get_connection_states\<close> the all-zero histogram, and
  \<^verbatim>\<open>get_top_processes\<close> the list gathered before the failure, here the empty list.
\<close>

theorem cache_failure_policy:
  "((case conns of None \<Rightarrow> True | Some cs \<Rightarrow> ssh_scan who cs fresh_ssh_stats = None) \<longrightarrow>
      fst (get_ssh_stats now conns who ex st) = ssh_stats_cache st \<and>
      ssh_stats_cache (snd (get_ssh_stats now conns who ex st)) = ssh_stats_cache st) \<and>
   (60 < now - last_gpu_info_time st \<longrightarrow>
      fst (get_gpu_info now None st) = Some ''Unknown GPU'' \<and>
      gpu_info_cache (snd (get_gpu_info now None st)) = Some ''Unknown GPU'') \<and>
   (10 < now - last_connection_states_time st \<longrightarrow>
      fst (get_connection_states now None st) = zero_states \<and>
      connection_states_cache (snd (get_connection_states now None st)) = zero_states) \<and>
   (5 < now - last_process_time st \<longrightarrow>
      fst (get_top_processes now [] st) = [] \<and>
      process_cache (snd (get_top_processes now [] st)) = [])"
proof (intro conjI impI)
  assume f: "case conns of None \<Rightarrow> True | Some cs \<Rightarrow> ssh_scan who cs fresh_ssh_stats = None"
  from f show "fst (get_ssh_stats now conns who ex st) = ssh_stats_cache st"
    by (rule get_ssh_stats_failed)
  from f show "ssh_stats_cache (snd (get_ssh_stats now conns who ex st)) = ssh_stats_cache st"
    by (rule get_ssh_stats_failed)
next
  assume due: "60 < now - last_gpu_info_time st"
  from due show "fst (get_gpu_info now None st) = Some ''Unknown GPU''"
    by (rule get_gpu_info_failed)
  from due show "gpu_info_cache (snd (get_gpu_info now None st)) = Some ''Unknown GPU''"
    by (rule get_gpu_info_failed)
next
  assume due: "10 < now - last_connection_states_time st"
  from due show "fst (get_connection_states now None st) = zero_states"
    by (rule get_connection_states_failed)
  from due
  show "connection_states_cache (snd (get_connection_states now None st)) = zero_states"
    by (rule get_connection_states_failed)
next
  assume due: "5 < now - last_process_time st"
  from due show "fst (get_top_processes now [] st) = []"
    by (rule get_top_processes_failed)
  from due show "process_cache (snd (get_top_processes now [] st)) = []"
    by (rule get_top_processes_failed)
qed

lemma warm_caches:
  "gpu_info_cache warm_state = Some ''Intel Alder Lake-N [UHD Graphics] [Integrated]''"
  "last_gpu_info_time warm_state = 1000"
  "connection_states_cache warm_state =
     [(''ESTABLISHED'', 1), (''SYN_SENT'', 0), (''SYN_RECV'', 0), (''FIN_WAIT1'', 0),
      (''FIN_WAIT2'', 0), (''TIME_WAIT'', 0), (''CLOSE'', 0), (''CLOSE_WAIT'', 0),
      (''LAST_ACK'', 0), (''LISTEN'', 3), (''CLOSING'', 0)]"
  "last_connection_states_time warm_state = 1000"
  "process_cache warm_state =
     [example_processes ! 1, example_processes ! 2, example_processes ! 0]"
  "last_process_time warm_state = 1000"
  "ssh_stats_cache warm_state = fresh_ssh_stats"
  by code_simp+

theorem cache_failure_policy_witness:
  "(60 :: rat) < 2000 - last_gpu_info_time warm_state \<and>
   (10 :: rat) < 2000 - last_connection_states_time warm_state \<and>
   (5 :: rat) < 2000 - last_process_time warm_state \<and>
   fst (get_ssh_stats 2000 None (ssh_who bare_os) no_ssh_steps warm_state) =
     ssh_stats_cache warm_state \<and>
   fst (get_gpu_info 2000 None warm_state) = Some ''Unknown GPU'' \<and>
   fst (get_connection_states 2000 None warm_state) = zero_states \<and>
   fst (get_top_processes 2000 [] warm_state) = []"
  using cache_failure_policy [where conns = None and who = "ssh_who bare_os"
      and now = 2000 and ex = no_ssh_steps and st = warm_state]
  by (simp add: warm_caches)

text \<open>
  The claim as worded fails for three of the four collectors: with good values cached
  at time 1000, a failed refresh at time 2000 replaces each of them by the default.
\<close>

theorem cache_failure_policy_counterexample:
  "gpu_info_cache warm_state = Some ''Intel Alder Lake-N [UHD Graphics] [Integrated]'' \<and>
   fst (get_gpu_info 2000 None warm_state) = Some ''Unknown GPU'' \<and>
   gpu_info_cache (snd (get_gpu_info 2000 None warm_state)) = Some ''Unknown GPU'' \<and>
   map_of (connection_states_cache warm_state) ''LISTEN'' = Some 3 \<and>
   fst (get_connection_states 2000 None warm_state) = zero_states \<and>
   connection_states_cache (snd (get_connection_states 2000 None warm_state)) = zero_states \<and>
   length (process_cache warm_state) = 3 \<and>
   fst (get_top_processes 2000 [] warm_state) = [] \<and>
   process_cache (snd (get_top_processes 2000 [] warm_state)) = []"
  by (simp add: warm_caches get_gpu_info_failed get_connection_states_failed
      get_top_processes_failed)

end
